theory Spec2Isabelle
  imports Complex_Main "HOL-Library.Sublist" "HOL-Library.AList" "HOL-Library.Log_Nat"
begin

section \<open>JavaScript values read from a JSON body\<close>

text \<open>
  The helpers and scenarios of the suite work on what \<^verbatim>\<open>await response.json()\<close> returns:
  a value built by \<^verbatim>\<open>JSON.parse\<close>. Numbers are finite doubles, which are rationals; an object
  is the list of its own properties in insertion order, read with \<open>map_of\<close>. The value
  \<^verbatim>\<open>undefined\<close> is not a JSON value: wherever an expression may be undefined its model has
  type \<open>json option\<close>, and \<open>None\<close> is \<^verbatim>\<open>undefined\<close>.
\<close>

datatype json =
    JNull
  | JBool bool
  | JNum rat
  | JStr string
  | JArr "json list"
  | JObj "(string \<times> json) list"

text \<open>What a failed \<^verbatim>\<open>expect\<close>, a rejected \<^verbatim>\<open>response.json()\<close> or a property read on
  \<^verbatim>\<open>null\<close>/\<^verbatim>\<open>undefined\<close> throws; each one ends the test as a failure.\<close>

datatype failure =
    ExpectFailed string
  | JsonSyntaxError
  | TypeError

definition and_then :: "failure + 'a \<Rightarrow> ('a \<Rightarrow> failure + 'b) \<Rightarrow> failure + 'b" where
  "and_then r f = (case r of Inl e \<Rightarrow> Inl e | Inr x \<Rightarrow> f x)"

text \<open>JavaScript truthiness: \<^verbatim>\<open>undefined\<close>, \<^verbatim>\<open>null\<close>, \<^verbatim>\<open>false\<close>, \<^verbatim>\<open>0\<close> and \<^verbatim>\<open>""\<close> are falsy,
  every array and object is truthy.\<close>

fun truthy :: "json option \<Rightarrow> bool" where
  "truthy None = False"
| "truthy (Some JNull) = False"
| "truthy (Some (JBool b)) = b"
| "truthy (Some (JNum x)) = (x \<noteq> 0)"
| "truthy (Some (JStr s)) = (s \<noteq> [])"
| "truthy (Some (JArr xs)) = True"
| "truthy (Some (JObj fs)) = True"

text \<open>\<^verbatim>\<open>v.name\<close> for the property names the suite reads (\<^verbatim>\<open>title\<close>, \<^verbatim>\<open>errors\<close>, \<^verbatim>\<open>id\<close> and the
  field keys): own properties of an object; a number, boolean, string or array parsed from
  JSON has none of them. Reading a property of \<^verbatim>\<open>null\<close> or \<^verbatim>\<open>undefined\<close> throws.\<close>

fun get_prop :: "json option \<Rightarrow> string \<Rightarrow> failure + json option" where
  "get_prop None k = Inl TypeError"
| "get_prop (Some JNull) k = Inl TypeError"
| "get_prop (Some (JObj fs)) k = Inr (map_of fs k)"
| "get_prop (Some v) k = Inr None"

text \<open>\<^verbatim>\<open>v?.[0]\<close>: the first element of an array, the first character of a string, the
  property \<^verbatim>\<open>"0"\<close> of an object; \<^verbatim>\<open>undefined\<close> when there is none, and when \<open>v\<close> is
  \<^verbatim>\<open>null\<close> or \<^verbatim>\<open>undefined\<close>.\<close>

fun opt_index0 :: "json option \<Rightarrow> json option" where
  "opt_index0 (Some (JArr xs)) = (case xs of [] \<Rightarrow> None | x # _ \<Rightarrow> Some x)"
| "opt_index0 (Some (JStr s)) = (case s of [] \<Rightarrow> None | c # _ \<Rightarrow> Some (JStr [c]))"
| "opt_index0 (Some (JObj fs)) = map_of fs ''0''"
| "opt_index0 v = None"

text \<open>\<^verbatim>\<open>v[0]\<close> without the optional chain throws on \<^verbatim>\<open>null\<close> and \<^verbatim>\<open>undefined\<close>.\<close>

definition index0 :: "json option \<Rightarrow> failure + json option" where
  "index0 v = (if v = None \<or> v = Some JNull then Inl TypeError else Inr (opt_index0 v))"

section \<open>The Zod schema combinators used by the models\<close>

text \<open>
  A schema is the function \<^verbatim>\<open>(v) => schema.safeParse(v).success\<close> on a value that may be
  undefined. The combinators follow the library (zod/v4): \<^verbatim>\<open>z.string()\<close> wants a string,
  \<^verbatim>\<open>.min(n)\<close> adds a lower bound on its length, \<^verbatim>\<open>z.uuid()\<close> wants a string matching the
  library's UUID pattern, \<^verbatim>\<open>z.float32()\<close> wants a finite number between the least and the
  greatest single-precision value, \<^verbatim>\<open>.optional()\<close> also accepts \<^verbatim>\<open>undefined\<close>, and
  \<^verbatim>\<open>z.object(shape)\<close> wants a non-null, non-array object each of whose shape keys passes its
  schema (unknown keys are stripped, not rejected).
\<close>

type_synonym schema = "json option \<Rightarrow> bool"

definition z_string :: schema where
  "z_string v = (case v of Some (JStr s) \<Rightarrow> True | _ \<Rightarrow> False)"

definition z_min :: "nat \<Rightarrow> schema \<Rightarrow> schema" where
  "z_min n sch v = (sch v \<and> (case v of Some (JStr s) \<Rightarrow> n \<le> length s | _ \<Rightarrow> True))"

definition hex_digit :: "char \<Rightarrow> bool" where
  "hex_digit c = (c \<in> set ''0123456789abcdefABCDEF'')"

text \<open>The pattern of \<^verbatim>\<open>z.uuid()\<close>:
  \<^verbatim>\<open>[0-9a-fA-F]{8}-[0-9a-fA-F]{4}-[1-8][0-9a-fA-F]{3}-[89abAB][0-9a-fA-F]{3}-[0-9a-fA-F]{12}\<close>,
  or the nil UUID, or the max UUID.\<close>

definition uuid_regex :: "string \<Rightarrow> bool" where
  "uuid_regex s =
     (s = ''00000000-0000-0000-0000-000000000000''
      \<or> s = ''ffffffff-ffff-ffff-ffff-ffffffffffff''
      \<or> (length s = 36
         \<and> list_all hex_digit (take 8 s)
         \<and> s ! 8 = CHR ''-''
         \<and> list_all hex_digit (take 4 (drop 9 s))
         \<and> s ! 13 = CHR ''-''
         \<and> s ! 14 \<in> set ''12345678''
         \<and> list_all hex_digit (take 3 (drop 15 s))
         \<and> s ! 18 = CHR ''-''
         \<and> s ! 19 \<in> set ''89abAB''
         \<and> list_all hex_digit (take 3 (drop 20 s))
         \<and> s ! 23 = CHR ''-''
         \<and> list_all hex_digit (drop 24 s)))"

definition z_uuid :: schema where
  "z_uuid v = (case v of Some (JStr s) \<Rightarrow> uuid_regex s | _ \<Rightarrow> False)"

text \<open>The greatest single-precision value, \<^verbatim>\<open>3.4028234663852886e38\<close> \<open>= (2^24 - 1) * 2^104\<close>.\<close>

definition FLOAT32_MAX :: rat where
  "FLOAT32_MAX = 340282346638528859811704183484516925440"

definition z_float32 :: schema where
  "z_float32 v =
     (case v of Some (JNum x) \<Rightarrow> - FLOAT32_MAX \<le> x \<and> x \<le> FLOAT32_MAX | _ \<Rightarrow> False)"

definition z_optional :: "schema \<Rightarrow> schema" where
  "z_optional sch v = (case v of None \<Rightarrow> True | Some _ \<Rightarrow> sch v)"

definition z_object :: "(string \<times> schema) list \<Rightarrow> schema" where
  "z_object shape v =
     (case v of
        Some (JObj fs) \<Rightarrow> list_all (\<lambda>(k, sch). sch (map_of fs k)) shape
      | _ \<Rightarrow> False)"

section \<open>Entity schemas\<close>

text \<open>models/barrel.model.ts\<close>

definition barrelObject :: schema where
  "barrelObject =
     z_object
       [(''id'', z_optional z_string),
        (''qr'', z_min 1 z_string),
        (''rfid'', z_min 1 z_string),
        (''nfc'', z_min 1 z_string)]"

text \<open>models/measurement.model.ts\<close>

definition measurementObject :: schema where
  "measurementObject =
     z_object
       [(''id'', z_optional z_uuid),
        (''barrelId'', z_uuid),
        (''dirtLevel'', z_float32),
        (''weight'', z_float32)]"

section \<open>Playwright: responses and matchers\<close>

text \<open>
  An \<^verbatim>\<open>APIResponse\<close> as the helpers read it: \<^verbatim>\<open>status()\<close>, \<^verbatim>\<open>headers()\<close> (a dictionary from
  lower-case header names to strings) and \<^verbatim>\<open>json()\<close>, which rejects when the body is not
  JSON (\<open>json_body = None\<close>).
\<close>

record APIResponse =
  status :: nat
  headers :: "(string \<times> string) list"
  json_body :: "json option"

definition response_json :: "APIResponse \<Rightarrow> failure + json" where
  "response_json response =
     (case json_body response of None \<Rightarrow> Inl JsonSyntaxError | Some v \<Rightarrow> Inr v)"

text \<open>\<^verbatim>\<open>expect(v).toBeTruthy()\<close>\<close>

definition expect_toBeTruthy :: "json option \<Rightarrow> failure + unit" where
  "expect_toBeTruthy actual =
     (if truthy actual then Inr () else Inl (ExpectFailed ''toBeTruthy''))"

text \<open>\<^verbatim>\<open>expect(v).toBe(w)\<close> compares with \<^verbatim>\<open>Object.is\<close>; the suite uses it with a string
  or a number on the right, where that is equality of values.\<close>

definition expect_toBe :: "'a \<Rightarrow> 'a \<Rightarrow> failure + unit" where
  "expect_toBe actual expected =
     (if actual = expected then Inr () else Inl (ExpectFailed ''toBe''))"

text \<open>\<^verbatim>\<open>expect(s).toContain(t)\<close> on a string: \<open>t\<close> occurs in \<open>s\<close>; it fails on
  \<^verbatim>\<open>undefined\<close>.\<close>

definition expect_toContain :: "string option \<Rightarrow> string \<Rightarrow> failure + unit" where
  "expect_toContain actual expected =
     (case actual of
        None \<Rightarrow> Inl (ExpectFailed ''toContain'')
      | Some s \<Rightarrow> if sublist expected s then Inr () else Inl (ExpectFailed ''toContain''))"

section \<open>Numbers as the program has them\<close>

text \<open>
  A JavaScript number is a double. \<open>to_double x\<close> is the double nearest to the rational
  \<open>x\<close> (round to nearest, ties to even): with \<open>e = \<lfloor>log\<^sub>2 |x|\<rfloor>\<close>, not below the least
  normal exponent, it is the multiple of \<open>2^(e - 52)\<close> nearest to \<open>x\<close>. Every arithmetic
  operation of the program returns the \<open>to_double\<close> of its exact result. Results beyond
  the greatest double are not represented; the generators stay far below it.
\<close>

definition round_half_even :: "rat \<Rightarrow> int" where
  "round_half_even y =
     (let f = \<lfloor>y\<rfloor>; d = y - of_int f
      in if d < 1 / 2 then f
         else if 1 / 2 < d then f + 1
         else if even f then f else f + 1)"

definition floor_log2 :: "rat \<Rightarrow> int" where
  "floor_log2 x = (if 1 \<le> x then bitlen \<lfloor>x\<rfloor> - 1 else - bitlen (\<lceil>1 / x\<rceil> - 1))"

definition to_double :: "rat \<Rightarrow> rat" where
  "to_double x =
     (if x = 0 then 0
      else let e = max (floor_log2 \<bar>x\<bar>) (- 1022);
               ulp = 2 powi (e - 52)
           in sgn x * of_int (round_half_even (\<bar>x\<bar> / ulp)) * ulp)"

section \<open>Faker\<close>

text \<open>
  The fixture generators call Faker, a library outside the suite. Its generator is state:
  every call reads it and advances it, and \<^verbatim>\<open>faker.string.ulid()\<close> also reads the clock.
  The model passes that state (generator and clock together, of any type \<open>'s\<close>) through the
  calls, and takes the four operations the suite uses as the fields of a record:
  \<^verbatim>\<open>faker.string.nanoid()\<close>, \<^verbatim>\<open>faker.string.ulid()\<close>, \<^verbatim>\<open>faker.string.alpha(n)\<close> and
  \<^verbatim>\<open>faker.number.int({ min, max })\<close>. \<open>drawn\<close> observes how many values the generator has
  produced so far.
\<close>

record 's faker =
  string_nanoid :: "'s \<Rightarrow> string \<times> 's"
  string_ulid :: "'s \<Rightarrow> string \<times> 's"
  string_alpha :: "nat \<Rightarrow> 's \<Rightarrow> string \<times> 's"
  number_int :: "rat \<Rightarrow> rat \<Rightarrow> 's \<Rightarrow> int \<times> 's"
  drawn :: "'s \<Rightarrow> nat"

definition is_letter :: "char \<Rightarrow> bool" where
  "is_letter c = (c \<in> set ''abcdefghijklmnopqrstuvwxyzABCDEFGHIJKLMNOPQRSTUVWXYZ'')"

text \<open>
  What the library promises, for every argument and every state: a nanoid has 21 characters
  and a ULID 26 (10 for the time, 16 drawn), \<open>alpha(n)\<close> has \<open>n\<close> letters, each drawn
  character takes at least one value from the generator, and \<open>int\<close> returns an integer
  between \<open>\<lceil>min\<rceil>\<close> and \<open>\<lfloor>max\<rfloor>\<close> when there is one.
\<close>

definition faker_ok :: "'s faker \<Rightarrow> bool" where
  "faker_ok F =
     ((\<forall>s. length (fst (string_nanoid F s)) = 21
           \<and> drawn F s + 21 \<le> drawn F (snd (string_nanoid F s)))
      \<and> (\<forall>s. length (fst (string_ulid F s)) = 26
           \<and> drawn F s + 16 \<le> drawn F (snd (string_ulid F s)))
      \<and> (\<forall>n s. length (fst (string_alpha F n s)) = n
           \<and> list_all is_letter (fst (string_alpha F n s))
           \<and> drawn F s + n \<le> drawn F (snd (string_alpha F n s)))
      \<and> (\<forall>lo hi s. \<lceil>lo\<rceil> \<le> \<lfloor>hi\<rfloor> \<longrightarrow>
            \<lceil>lo\<rceil> \<le> fst (number_int F lo hi s) \<and> fst (number_int F lo hi s) \<le> \<lfloor>hi\<rfloor>))"

text \<open>
  \<^verbatim>\<open>faker.number.float({ min, max, fractionDigits })\<close> is written in terms of \<open>int\<close>: with
  \<open>factor = 10^fractionDigits\<close> it returns \<^verbatim>\<open>int({ min: min * factor, max: max * factor }) / factor\<close>
  when \<open>min < max\<close>, as in both calls of the suite; the two products and the quotient are
  doubles.
\<close>

definition faker_number_float :: "'s faker \<Rightarrow> rat \<Rightarrow> rat \<Rightarrow> nat \<Rightarrow> 's \<Rightarrow> rat \<times> 's" where
  "faker_number_float F mn mx fractionDigits s =
     (let factor = 10 ^ fractionDigits;
          (n, s') = number_int F (to_double (mn * factor)) (to_double (mx * factor)) s
      in (to_double (of_int n / factor), s'))"

text \<open>
  A generator that meets the contract, for running the fixture generators on concrete
  states: the state is the number of values drawn, the \<open>i\<close>-th value is \<open>37 * i + 11\<close>, a
  character is the value's remainder as an index into the alphabet, and the clock stands
  still.
\<close>

definition example_value :: "nat \<Rightarrow> nat" where
  "example_value i = 37 * i + 11"

definition example_chars :: "string \<Rightarrow> nat \<Rightarrow> nat \<Rightarrow> string" where
  "example_chars alphabet n s =
     map (\<lambda>i. alphabet ! (example_value i mod length alphabet)) [s..<s + n]"

definition example_faker :: "nat faker" where
  "example_faker =
     \<lparr>string_nanoid = (\<lambda>s.
        (example_chars
           ''0123456789abcdefghijklmnopqrstuvwxyzABCDEFGHIJKLMNOPQRSTUVWXYZ_-'' 21 s, s + 21)),
      string_ulid = (\<lambda>s.
        (''01ARZ3NDEK'' @ example_chars ''0123456789ABCDEFGHJKMNPQRSTVWXYZ'' 16 s, s + 16)),
      string_alpha = (\<lambda>n s.
        (example_chars ''abcdefghijklmnopqrstuvwxyzABCDEFGHIJKLMNOPQRSTUVWXYZ'' n s, s + n)),
      number_int = (\<lambda>lo hi s.
        (\<lceil>lo\<rceil> + int (example_value s) mod (\<lfloor>hi\<rfloor> - \<lceil>lo\<rceil> + 1), s + 1)),
      drawn = (\<lambda>s. s)\<rparr>"

section \<open>Fixture generators\<close>

text \<open>helpers/barrel.helper.ts. The three properties are evaluated in the order written;
  the generator returns the object and leaves Faker in the state after the third call.\<close>

definition prepareBarrelObject :: "'s faker \<Rightarrow> 's \<Rightarrow> json \<times> 's" where
  "prepareBarrelObject F s =
     (let (qr, s1) = string_nanoid F s;
          (rfid, s2) = string_ulid F s1;
          (nfc, s3) = string_alpha F 20 s2
      in (JObj [(''qr'', JStr qr),
                (''rfid'', JStr rfid),
                (''nfc'', JStr nfc)], s3))"

text \<open>helpers/measurement.helper.ts\<close>

definition prepareMeasurementObject :: "'s faker \<Rightarrow> string \<Rightarrow> 's \<Rightarrow> json \<times> 's" where
  "prepareMeasurementObject F barrelId s =
     (let (dirtLevel, s1) = faker_number_float F 1 95 2 s;
          (weight, s2) = faker_number_float F 100 200 1 s1
      in (JObj [(''barrelId'', JStr barrelId),
                (''dirtLevel'', JNum dirtLevel),
                (''weight'', JNum weight)], s2))"

section \<open>Response validators\<close>

text \<open>The first check of both validators: the \<^verbatim>\<open>content-type\<close> header is there and
  contains \<^verbatim>\<open>application/json\<close>.\<close>

definition content_type_is_json :: "APIResponse \<Rightarrow> bool" where
  "content_type_is_json response =
     (case map_of (headers response) ''content-type'' of
        None \<Rightarrow> False
      | Some ct \<Rightarrow> sublist ''application/json'' ct)"

definition checkMeasurementResponseAndReturnBody :: "APIResponse \<Rightarrow> failure + json" where
  "checkMeasurementResponseAndReturnBody response =
     and_then (expect_toContain (map_of (headers response) ''content-type'') ''application/json'')
       (\<lambda>_.
     and_then (response_json response) (\<lambda>responseBody.
     and_then (expect_toBeTruthy (Some responseBody)) (\<lambda>_.
     and_then (expect_toBeTruthy (Some (JBool (measurementObject (Some responseBody))))) (\<lambda>_.
     Inr responseBody))))"

definition checkBarrelResponseAndReturnBody :: "APIResponse \<Rightarrow> failure + json" where
  "checkBarrelResponseAndReturnBody response =
     and_then (expect_toContain (map_of (headers response) ''content-type'') ''application/json'')
       (\<lambda>_.
     and_then (response_json response) (\<lambda>responseBody.
     and_then (expect_toBeTruthy (Some responseBody)) (\<lambda>_.
     and_then (expect_toBeTruthy (Some (JBool (barrelObject (Some responseBody))))) (\<lambda>_.
     Inr responseBody))))"

section \<open>Error-shape validators\<close>

definition validationErrorMessage :: string where
  "validationErrorMessage = ''One or more validation errors occurred.''"

text \<open>\<^verbatim>\<open>checkErrorResponse\<close> is written twice, in measurement.helper.ts and in
  barrel.helper.ts, with the same body.\<close>

definition checkErrorResponse :: "json \<Rightarrow> failure + unit" where
  "checkErrorResponse response =
     and_then (expect_toBeTruthy (Some response)) (\<lambda>_.
     and_then (get_prop (Some response) ''title'') (\<lambda>title.
     and_then (expect_toBe title (Some (JStr validationErrorMessage))) (\<lambda>_.
     and_then (get_prop (Some response) ''errors'') (\<lambda>errors.
     expect_toBeTruthy errors))))"

text \<open>The measurement checkers read \<^verbatim>\<open>response.errors.K[0]\<close>.\<close>

definition checkBarrelIdRequiredErrorResponse :: "json \<Rightarrow> failure + unit" where
  "checkBarrelIdRequiredErrorResponse response =
     and_then (checkErrorResponse response) (\<lambda>_.
     and_then (get_prop (Some response) ''errors'') (\<lambda>errors.
     and_then (get_prop errors ''BarrelId'') (\<lambda>field.
     and_then (expect_toBeTruthy field) (\<lambda>_.
     and_then (index0 field) (\<lambda>first.
     expect_toBe first (Some (JStr ''The BarrelId field is required.'')))))))"

definition checkDirtLevelRequiredErrorResponse :: "json \<Rightarrow> failure + unit" where
  "checkDirtLevelRequiredErrorResponse response =
     and_then (checkErrorResponse response) (\<lambda>_.
     and_then (get_prop (Some response) ''errors'') (\<lambda>errors.
     and_then (get_prop errors ''DirtLevel'') (\<lambda>field.
     and_then (expect_toBeTruthy field) (\<lambda>_.
     and_then (index0 field) (\<lambda>first.
     expect_toBe first (Some (JStr ''The Dirtlevel field is required.'')))))))"

definition checkWeightRequiredErrorResponse :: "json \<Rightarrow> failure + unit" where
  "checkWeightRequiredErrorResponse response =
     and_then (checkErrorResponse response) (\<lambda>_.
     and_then (get_prop (Some response) ''errors'') (\<lambda>errors.
     and_then (get_prop errors ''Weight'') (\<lambda>field.
     and_then (expect_toBeTruthy field) (\<lambda>_.
     and_then (index0 field) (\<lambda>first.
     expect_toBe first (Some (JStr ''The Weight field is required.'')))))))"

text \<open>The barrel checkers read \<^verbatim>\<open>response.errors.K?.[0]\<close>.\<close>

definition checkQrRequiredErrorResponse :: "json \<Rightarrow> failure + unit" where
  "checkQrRequiredErrorResponse response =
     and_then (checkErrorResponse response) (\<lambda>_.
     and_then (get_prop (Some response) ''errors'') (\<lambda>errors.
     and_then (get_prop errors ''Qr'') (\<lambda>field.
     and_then (expect_toBeTruthy field) (\<lambda>_.
     expect_toBe (opt_index0 field) (Some (JStr ''The Qr field is required.''))))))"

definition checkRfidRequiredErrorResponse :: "json \<Rightarrow> failure + unit" where
  "checkRfidRequiredErrorResponse response =
     and_then (checkErrorResponse response) (\<lambda>_.
     and_then (get_prop (Some response) ''errors'') (\<lambda>errors.
     and_then (get_prop errors ''Rfid'') (\<lambda>field.
     and_then (expect_toBeTruthy field) (\<lambda>_.
     expect_toBe (opt_index0 field) (Some (JStr ''The Rfid field is required.''))))))"

definition checkNfcRequiredErrorResponse :: "json \<Rightarrow> failure + unit" where
  "checkNfcRequiredErrorResponse response =
     and_then (checkErrorResponse response) (\<lambda>_.
     and_then (get_prop (Some response) ''errors'') (\<lambda>errors.
     and_then (get_prop errors ''Nfc'') (\<lambda>field.
     and_then (expect_toBeTruthy field) (\<lambda>_.
     expect_toBe (opt_index0 field) (Some (JStr ''The Nfc field is required.''))))))"

text \<open>
  The shape the error checkers look for, written on the data: an object whose \<open>title\<close> is the
  validation message and whose \<open>errors\<close> is an object in which element 0 of the value under
  \<open>key\<close> is the string \<open>message\<close>.
\<close>

definition field_error_envelope :: "string \<Rightarrow> string \<Rightarrow> json \<Rightarrow> bool" where
  "field_error_envelope key message response =
     (case response of
        JObj fs \<Rightarrow>
          map_of fs ''title'' = Some (JStr validationErrorMessage)
          \<and> (case map_of fs ''errors'' of
               Some (JObj es) \<Rightarrow> opt_index0 (map_of es key) = Some (JStr message)
             | _ \<Rightarrow> False)
      | _ \<Rightarrow> False)"

section \<open>Scenarios\<close>

text \<open>
  The service under test is outside the suite: \<open>post\<close> is \<^verbatim>\<open>request.post(url, { data })\<close>,
  from the URL and the JSON data sent to the response received. Serialising an object
  literal leaves out the properties that hold \<^verbatim>\<open>undefined\<close>.
\<close>

definition json_data :: "(string \<times> json option) list \<Rightarrow> json" where
  "json_data props = JObj (List.map_filter (\<lambda>(k, v). map_option (Pair k) v) props)"

text \<open>\<^verbatim>\<open>obj.k = v\<close>: replaces the property in place, or appends it.\<close>

fun set_prop :: "json \<Rightarrow> string \<Rightarrow> json \<Rightarrow> json" where
  "set_prop (JObj fs) k v = JObj (AList.update k v fs)"
| "set_prop obj k v = obj"

definition measurementsEndpoint :: string where
  "measurementsEndpoint = ''/measurements''"

definition barrelsEndpoint :: string where
  "barrelsEndpoint = ''/barrels''"

text \<open>test('Dirt level is negative number'); \<open>barrel\<close> is the body stored by
  \<^verbatim>\<open>beforeAll\<close>.\<close>

definition test_dirt_level_is_negative_number ::
    "(string \<Rightarrow> json \<Rightarrow> APIResponse) \<Rightarrow> json \<Rightarrow> failure + unit" where
  "test_dirt_level_is_negative_number post barrel =
     and_then (get_prop (Some barrel) ''id'') (\<lambda>barrel_id.
     (let response = post measurementsEndpoint
            (json_data [(''barrelId'', barrel_id),
                        (''dirtLevel'', Some (JNum (- 10))),
                        (''weight'', Some (JNum 10))]) in
     and_then (expect_toBe (status response) 400) (\<lambda>_.
     and_then (response_json response) (\<lambda>body.
     and_then (checkErrorResponse body) (\<lambda>_.
     and_then (get_prop (Some body) ''errors'') (\<lambda>errors.
     and_then (get_prop errors ''DirtLevel'') (\<lambda>field.
     and_then (expect_toBeTruthy field) (\<lambda>_.
     and_then (expect_toBeTruthy (opt_index0 field)) (\<lambda>_.
     expect_toBe (opt_index0 field)
       (Some (JStr ''DirtLevel must be positive number'')))))))))))"

text \<open>test('Weight is negative number')\<close>

definition test_weight_is_negative_number ::
    "(string \<Rightarrow> json \<Rightarrow> APIResponse) \<Rightarrow> json \<Rightarrow> failure + unit" where
  "test_weight_is_negative_number post barrel =
     and_then (get_prop (Some barrel) ''id'') (\<lambda>barrel_id.
     (let response = post measurementsEndpoint
            (json_data [(''barrelId'', barrel_id),
                        (''dirtLevel'', Some (JNum 10)),
                        (''weight'', Some (JNum (- 10)))]) in
     and_then (expect_toBe (status response) 400) (\<lambda>_.
     and_then (response_json response) (\<lambda>body.
     and_then (checkErrorResponse body) (\<lambda>_.
     and_then (get_prop (Some body) ''errors'') (\<lambda>errors.
     and_then (get_prop errors ''Weight'') (\<lambda>field.
     and_then (expect_toBeTruthy field) (\<lambda>_.
     expect_toBe (opt_index0 field)
       (Some (JStr ''Weight must be positive number''))))))))))"

text \<open>test('Post - Qr is too long')\<close>

definition test_post_qr_is_too_long ::
    "(string \<Rightarrow> json \<Rightarrow> APIResponse) \<Rightarrow> 's faker \<Rightarrow> 's \<Rightarrow> failure + unit" where
  "test_post_qr_is_too_long post F s =
     (let barrelData =
            set_prop (fst (prepareBarrelObject F s)) ''qr'' (JStr (replicate 10000 CHR ''x''));
          response = post barrelsEndpoint barrelData in
     and_then (expect_toBe (status response) 400) (\<lambda>_.
     and_then (response_json response) (\<lambda>responseBody.
     and_then (checkErrorResponse responseBody) (\<lambda>_.
     and_then (get_prop (Some responseBody) ''errors'') (\<lambda>errors.
     and_then (get_prop errors ''Qr'') (\<lambda>field.
     and_then (expect_toBeTruthy field) (\<lambda>_.
     expect_toBe (opt_index0 field) (Some (JStr ''Input too long'')))))))))"

section \<open>Facts about the schemas\<close>


lemma z_string_iff: "z_string v \<longleftrightarrow> (\<exists>s. v = Some (JStr s))"
  by (auto simp: z_string_def split: option.splits json.splits)

lemma z_min_string_iff: "z_min n z_string v \<longleftrightarrow> (\<exists>s. v = Some (JStr s) \<and> n \<le> length s)"
  by (auto simp: z_min_def z_string_def split: option.splits json.splits)

lemma z_uuid_iff: "z_uuid v \<longleftrightarrow> (\<exists>s. v = Some (JStr s) \<and> uuid_regex s)"
  by (auto simp: z_uuid_def split: option.splits json.splits)

lemma z_float32_iff:
  "z_float32 v \<longleftrightarrow> (\<exists>x. v = Some (JNum x) \<and> - FLOAT32_MAX \<le> x \<and> x \<le> FLOAT32_MAX)"
  by (auto simp: z_float32_def split: option.splits json.splits)

lemma z_optional_iff: "z_optional sch v \<longleftrightarrow> v = None \<or> sch v"
  by (auto simp: z_optional_def split: option.splits)

lemma barrelObject_iff:
  "barrelObject v \<longleftrightarrow>
     (\<exists>fs. v = Some (JObj fs)
        \<and> (map_of fs ''id'' = None \<or> (\<exists>s. map_of fs ''id'' = Some (JStr s)))
        \<and> (\<exists>q. map_of fs ''qr'' = Some (JStr q) \<and> q \<noteq> [])
        \<and> (\<exists>r. map_of fs ''rfid'' = Some (JStr r) \<and> r \<noteq> [])
        \<and> (\<exists>n. map_of fs ''nfc'' = Some (JStr n) \<and> n \<noteq> []))"
  by (auto simp: barrelObject_def z_object_def z_optional_iff z_string_iff z_min_string_iff Suc_le_eq
           split: option.splits json.splits)

lemma measurementObject_iff:
  "measurementObject v \<longleftrightarrow>
     (\<exists>fs. v = Some (JObj fs)
        \<and> (map_of fs ''id'' = None \<or> (\<exists>s. map_of fs ''id'' = Some (JStr s) \<and> uuid_regex s))
        \<and> (\<exists>b. map_of fs ''barrelId'' = Some (JStr b) \<and> uuid_regex b)
        \<and> (\<exists>x. map_of fs ''dirtLevel'' = Some (JNum x) \<and> - FLOAT32_MAX \<le> x \<and> x \<le> FLOAT32_MAX)
        \<and> (\<exists>x. map_of fs ''weight'' = Some (JNum x) \<and> - FLOAT32_MAX \<le> x \<and> x \<le> FLOAT32_MAX))"
  by (auto simp: measurementObject_def z_object_def z_optional_iff z_uuid_iff z_float32_iff
           split: option.splits json.splits)

section \<open>Facts about the matchers and the error envelope\<close>


lemma and_then_Inr_iff: "and_then r f = Inr y \<longleftrightarrow> (\<exists>x. r = Inr x \<and> f x = Inr y)"
  by (cases r) (simp_all add: and_then_def)

lemma expect_toBeTruthy_iff: "expect_toBeTruthy v = Inr u \<longleftrightarrow> truthy v"
  by (simp add: expect_toBeTruthy_def)

lemma expect_toBe_iff: "expect_toBe a b = Inr u \<longleftrightarrow> a = b"
  by (simp add: expect_toBe_def)

lemma expect_toContain_iff:
  "expect_toContain a t = Inr u \<longleftrightarrow> (\<exists>s. a = Some s \<and> sublist t s)"
  by (simp add: expect_toContain_def split: option.splits)

lemma response_json_iff: "response_json r = Inr b \<longleftrightarrow> json_body r = Some b"
  by (simp add: response_json_def split: option.splits)

lemma not_Inr_iff_Inl: "(\<exists>e. r = Inl e) \<longleftrightarrow> \<not> (\<exists>x. r = Inr x)"
  by (cases r) simp_all

lemma opt_index0_truthy: "opt_index0 v = Some x \<Longrightarrow> truthy v"
  by (cases v rule: opt_index0.cases) (auto split: list.splits)

lemma checkErrorResponse_iff:
  "checkErrorResponse r = Inr u \<longleftrightarrow>
     (\<exists>fs. r = JObj fs \<and> map_of fs ''title'' = Some (JStr validationErrorMessage)
        \<and> truthy (map_of fs ''errors''))"
  by (cases r)
     (auto simp: checkErrorResponse_def and_then_Inr_iff expect_toBeTruthy_iff expect_toBe_iff)

lemma opt_field_check_iff:
  "and_then (checkErrorResponse r) (\<lambda>_.
     and_then (get_prop (Some r) ''errors'') (\<lambda>errors.
     and_then (get_prop errors key) (\<lambda>field.
     and_then (expect_toBeTruthy field) (\<lambda>_.
     expect_toBe (opt_index0 field) (Some (JStr message)))))) = Inr u
   \<longleftrightarrow> field_error_envelope key message r"
proof (cases r)
  case (JObj fs)
  show ?thesis
  proof (cases "map_of fs ''errors''")
    case None
    with JObj show ?thesis
      by (simp add: and_then_Inr_iff checkErrorResponse_iff field_error_envelope_def)
  next
    case (Some e)
    with JObj show ?thesis
      by (cases e)
         (auto simp: and_then_Inr_iff checkErrorResponse_iff field_error_envelope_def
                     expect_toBeTruthy_iff expect_toBe_iff dest: opt_index0_truthy)
  qed
qed (simp_all add: and_then_Inr_iff checkErrorResponse_iff field_error_envelope_def)

lemma index0_field_check_iff:
  "and_then (checkErrorResponse r) (\<lambda>_.
     and_then (get_prop (Some r) ''errors'') (\<lambda>errors.
     and_then (get_prop errors key) (\<lambda>field.
     and_then (expect_toBeTruthy field) (\<lambda>_.
     and_then (index0 field) (\<lambda>first.
     expect_toBe first (Some (JStr message))))))) = Inr u
   \<longleftrightarrow> field_error_envelope key message r"
proof -
  have "and_then (expect_toBeTruthy field) (\<lambda>_.
          and_then (index0 field) (\<lambda>first. expect_toBe first (Some (JStr message))))
        = and_then (expect_toBeTruthy field) (\<lambda>_.
            expect_toBe (opt_index0 field) (Some (JStr message)))" for field
    by (cases field rule: truthy.cases)
       (simp_all add: and_then_def expect_toBeTruthy_def index0_def)
  then show ?thesis
    using opt_field_check_iff [of r key message u] by simp
qed


section \<open>Facts about rounding to a double\<close>

lemma round_half_even_ge: "of_int a \<le> y \<Longrightarrow> a \<le> round_half_even y"
proof -
  assume "of_int a \<le> y"
  then have "a \<le> \<lfloor>y\<rfloor>" by (simp add: le_floor_iff)
  then show ?thesis by (simp add: round_half_even_def Let_def)
qed

lemma round_half_even_le: "y \<le> of_int b \<Longrightarrow> round_half_even y \<le> b"
proof -
  assume yb: "y \<le> of_int b"
  have fb: "\<lfloor>y\<rfloor> \<le> b" using yb by (simp add: floor_le_iff)
  show ?thesis
  proof (cases "y = of_int \<lfloor>y\<rfloor>")
    case True
    then have "y - of_int \<lfloor>y\<rfloor> = 0" by simp
    then show ?thesis using fb by (simp add: round_half_even_def Let_def)
  next
    case False
    then have "of_int \<lfloor>y\<rfloor> < y" using of_int_floor_le [of y] by linarith
    with yb have "of_int \<lfloor>y\<rfloor> < (of_int b :: rat)" by linarith
    then have "\<lfloor>y\<rfloor> < b" by simp
    then show ?thesis using fb by (simp add: round_half_even_def Let_def)
  qed
qed

lemma floor_log2_range:
  assumes "1 \<le> x" and "x < 2 ^ 53"
  shows "0 \<le> floor_log2 x" and "floor_log2 x \<le> 52"
proof -
  from assms(1) have pos: "0 < \<lfloor>x\<rfloor>" by (simp add: floor_less_iff less_floor_iff) 
  then have "1 \<le> bitlen \<lfloor>x\<rfloor>" by (simp add: bitlen_alt_def)
  with assms(1) show "0 \<le> floor_log2 x" by (simp add: floor_log2_def)
  from assms(2) have "\<lfloor>x\<rfloor> < 2 ^ 53" by (simp add: floor_less_iff)
  then have "bitlen \<lfloor>x\<rfloor> \<le> 53"
    using bitlen_le_iff_power [of "\<lfloor>x\<rfloor>" 53] by simp
  with assms(1) show "floor_log2 x \<le> 52" by (simp add: floor_log2_def)
qed

lemma to_double_between:
  assumes "1 \<le> x" and "x < 2 ^ 53" and "of_int a \<le> x" and "x \<le> of_int b"
  shows "of_int a \<le> to_double x \<and> to_double x \<le> of_int b"
proof -
  define k where "k = nat (52 - floor_log2 x)"
  from floor_log2_range [OF assms(1,2)]
  have e: "max (floor_log2 x) (- 1022) = floor_log2 x" and ek: "floor_log2 x - 52 = - int k"
    by (simp_all add: k_def)
  have ulp: "(2::rat) powi (floor_log2 x - 52) = 1 / 2 ^ k"
    unfolding ek by (simp add: power_int_minus field_simps)
  from assms(1) have x: "x \<noteq> 0" "\<bar>x\<bar> = x" "sgn x = 1" by simp_all
  have "to_double x = of_int (round_half_even (x / (1 / 2 ^ k))) * (1 / 2 ^ k)"
    unfolding to_double_def Let_def e x(2) ulp using x(1,3) by simp
  then have td: "to_double x = of_int (round_half_even (x * 2 ^ k)) / 2 ^ k"
    by simp
  have "of_int (a * 2 ^ k) \<le> x * 2 ^ k" using assms(3) by simp
  then have lo: "a * 2 ^ k \<le> round_half_even (x * 2 ^ k)" by (rule round_half_even_ge)
  have "x * 2 ^ k \<le> of_int (b * 2 ^ k)" using assms(4) by simp
  then have hi: "round_half_even (x * 2 ^ k) \<le> b * 2 ^ k" by (rule round_half_even_le)
  from lo have "(of_int (a * 2 ^ k) :: rat) \<le> of_int (round_half_even (x * 2 ^ k))"
    by (simp only: of_int_le_iff)
  then have 1: "of_int a \<le> to_double x" by (simp add: td field_simps)
  from hi have "(of_int (round_half_even (x * 2 ^ k)) :: rat) \<le> of_int (b * 2 ^ k)"
    by (simp only: of_int_le_iff)
  then have 2: "to_double x \<le> of_int b" by (simp add: td field_simps)
  from 1 2 show ?thesis ..
qed

lemma to_double_of_int:
  assumes "1 \<le> m" and "m < 2 ^ 53"
  shows "to_double (of_int m) = of_int m"
  using to_double_between [of "of_int m" m m] assms by simp

lemma floor_log2_correct:
  assumes "0 < x"
  shows "2 powi floor_log2 x \<le> x \<and> x < 2 powi (floor_log2 x + 1)"
proof (cases "1 \<le> x")
  case True
  then have pos: "0 < \<lfloor>x\<rfloor>" by (simp add: less_floor_iff)
  then have b1: "1 \<le> bitlen \<lfloor>x\<rfloor>" by (simp add: bitlen_alt_def)
  from bitlen_bounds [OF pos]
  have lo: "2 ^ nat (bitlen \<lfloor>x\<rfloor> - 1) \<le> \<lfloor>x\<rfloor>" and hi: "\<lfloor>x\<rfloor> < 2 ^ nat (bitlen \<lfloor>x\<rfloor>)"
    by simp_all
  from lo have "(of_int (2 ^ nat (bitlen \<lfloor>x\<rfloor> - 1)) :: rat) \<le> of_int \<lfloor>x\<rfloor>"
    by (simp only: of_int_le_iff)
  also have "\<dots> \<le> x" by (rule of_int_floor_le)
  finally have 1: "(2::rat) ^ nat (bitlen \<lfloor>x\<rfloor> - 1) \<le> x" by simp
  from hi have "\<lfloor>x\<rfloor> + 1 \<le> 2 ^ nat (bitlen \<lfloor>x\<rfloor>)" by simp
  then have "(of_int (\<lfloor>x\<rfloor> + 1) :: rat) \<le> of_int (2 ^ nat (bitlen \<lfloor>x\<rfloor>))"
    by (simp only: of_int_le_iff)
  moreover have "x < of_int (\<lfloor>x\<rfloor> + 1)" using floor_correct [of x] by simp
  ultimately have "x < (of_int (2 ^ nat (bitlen \<lfloor>x\<rfloor>)) :: rat)" by (rule less_le_trans [rotated])
  then have 2: "x < (2::rat) ^ nat (bitlen \<lfloor>x\<rfloor>)" by simp
  have e1: "(2::rat) powi (bitlen \<lfloor>x\<rfloor> - 1) = 2 ^ nat (bitlen \<lfloor>x\<rfloor> - 1)"
    using b1 by (simp add: power_int_def)
  have e2: "(2::rat) powi (bitlen \<lfloor>x\<rfloor> - 1 + 1) = 2 ^ nat (bitlen \<lfloor>x\<rfloor>)"
    using b1 by (simp add: power_int_def)
  from True 1 2 show ?thesis
    by (simp only: floor_log2_def if_True e1 e2 simp_thms)
next
  case False
  define y where "y = 1 / x"
  define m where "m = \<lceil>y\<rceil> - 1"
  from False assms have y1: "1 < y" by (simp add: y_def)
  then have mpos: "0 < m" by (simp add: m_def less_ceiling_iff)
  have my: "of_int m < y" "y \<le> of_int m + 1"
    using ceiling_correct [of y] by (simp_all add: m_def)
  from bitlen_bounds [OF mpos]
  have lo: "2 ^ nat (bitlen m - 1) \<le> m" and hi: "m < 2 ^ nat (bitlen m)"
    by simp_all
  from mpos have b1: "1 \<le> bitlen m" by (simp add: bitlen_alt_def)
  from lo have "(of_int (2 ^ nat (bitlen m - 1)) :: rat) \<le> of_int m"
    by (simp only: of_int_le_iff)
  also note my(1)
  finally have A: "(2::rat) ^ nat (bitlen m - 1) < y" by simp
  from hi have "m + 1 \<le> 2 ^ nat (bitlen m)" by simp
  then have "(of_int (m + 1) :: rat) \<le> of_int (2 ^ nat (bitlen m))"
    by (simp only: of_int_le_iff)
  with my(2) have "y \<le> (of_int (2 ^ nat (bitlen m)) :: rat)" by simp
  then have B: "y \<le> (2::rat) ^ nat (bitlen m)" by simp
  have x: "x = 1 / y" using assms by (simp add: y_def)
  have e1: "(2::rat) powi (- bitlen m) = 1 / 2 ^ nat (bitlen m)"
    using b1 by (simp add: power_int_def field_simps)
  have e2: "(2::rat) powi (- bitlen m + 1) = 1 / 2 ^ nat (bitlen m - 1)"
    using b1 by (simp add: power_int_def field_simps nat_diff_distrib)
  have fl: "floor_log2 x = - bitlen m"
    using False by (simp add: floor_log2_def m_def y_def)
  from y1 A B have "1 / 2 ^ nat (bitlen m) \<le> 1 / y \<and> 1 / y < 1 / 2 ^ nat (bitlen m - 1)"
    by (simp add: field_simps)
  then have "2 powi (- bitlen m) \<le> x \<and> x < 2 powi (- bitlen m + 1)"
    by (simp only: e1 e2 x)
  then show ?thesis
    by (simp only: fl)
qed

lemma round_half_even_nearest: "\<bar>of_int (round_half_even y) - y\<bar> \<le> 1 / 2"
proof -
  have "of_int \<lfloor>y\<rfloor> \<le> y" "y < of_int \<lfloor>y\<rfloor> + 1"
    using floor_correct [of y] by simp_all
  then show ?thesis
    by (auto simp: round_half_even_def Let_def abs_le_iff)
qed

lemma to_double_nearest:
  assumes "x \<noteq> 0"
  shows "\<bar>to_double x - x\<bar> \<le> 2 powi (max (floor_log2 \<bar>x\<bar>) (- 1022) - 52) / 2"
proof -
  define u :: rat where "u = 2 powi (max (floor_log2 \<bar>x\<bar>) (- 1022) - 52)"
  have u: "0 < u" by (simp add: u_def)
  have td: "to_double x = sgn x * of_int (round_half_even (\<bar>x\<bar> / u)) * u"
    using assms by (simp add: to_double_def Let_def u_def)
  have sx: "\<bar>x\<bar> * sgn x = x" "sgn x * \<bar>x\<bar> = x"
    by (simp_all add: mult.commute [of "\<bar>x\<bar>"] mult_sgn_abs)
  have "to_double x - x = sgn x * (of_int (round_half_even (\<bar>x\<bar> / u)) - \<bar>x\<bar> / u) * u"
    using u by (simp add: td algebra_simps sx)
  then have "\<bar>to_double x - x\<bar> = \<bar>of_int (round_half_even (\<bar>x\<bar> / u)) - \<bar>x\<bar> / u\<bar> * u"
    using assms u by (simp add: abs_mult abs_sgn_eq)
  also have "\<dots> \<le> 1 / 2 * u"
    using round_half_even_nearest [of "\<bar>x\<bar> / u"] u by (simp only: mult_right_mono less_imp_le)
  finally show ?thesis by (simp add: u_def)
qed

section \<open>Facts about Faker's numbers\<close>

lemma faker_number_float_eq:
  assumes "faker_ok F" and "1 \<le> a" and "a \<le> b" and "b * 10 ^ fd < 2 ^ 53"
  shows "\<exists>n. faker_number_float F (of_int a) (of_int b) fd s
            = (to_double (of_int n / 10 ^ fd),
               snd (number_int F (of_int (a * 10 ^ fd)) (of_int (b * 10 ^ fd)) s))
          \<and> n = fst (number_int F (of_int (a * 10 ^ fd)) (of_int (b * 10 ^ fd)) s)
          \<and> a * 10 ^ fd \<le> n \<and> n \<le> b * 10 ^ fd
          \<and> of_int a \<le> to_double (of_int n / 10 ^ fd)
          \<and> to_double (of_int n / 10 ^ fd) \<le> of_int b"
proof -
  let ?lo = "a * 10 ^ fd" and ?hi = "b * 10 ^ fd"
  have p: "(1::int) \<le> 10 ^ fd" by simp
  have lo1: "1 \<le> ?lo" using assms(2) p by (metis mult_mono zero_le_one mult_1 order_trans)
  have lohi: "?lo \<le> ?hi" using assms(3) by simp
  have hi53: "?hi < 2 ^ 53" by (rule assms(4))
  from lohi hi53 have lo53: "?lo < 2 ^ 53" by (rule le_less_trans)
  have tlo: "to_double (of_int a * 10 ^ fd) = of_int ?lo"
    using to_double_of_int [OF lo1 lo53] by simp
  from lo1 lohi have hi1: "1 \<le> ?hi" by (rule order_trans)
  have thi: "to_double (of_int b * 10 ^ fd) = of_int ?hi"
    using to_double_of_int [OF hi1 hi53] by simp
  define n where "n = fst (number_int F (of_int ?lo) (of_int ?hi) s)"
  from assms(1) lohi have n: "?lo \<le> n" "n \<le> ?hi"
    unfolding faker_ok_def n_def
    by (metis ceiling_of_int floor_of_int)+
  have eq: "faker_number_float F (of_int a) (of_int b) fd s
      = (to_double (of_int n / 10 ^ fd), snd (number_int F (of_int ?lo) (of_int ?hi) s))"
    by (simp add: faker_number_float_def Let_def split_def tlo thi n_def)
  let ?x = "of_int n / 10 ^ fd :: rat"
  have "(of_int ?lo :: rat) \<le> of_int n" "(of_int n :: rat) \<le> of_int ?hi"
    using n by (simp_all only: of_int_le_iff)
  then have x: "of_int a \<le> ?x" "?x \<le> of_int b"
    by (simp_all add: field_simps)
  from x(1) assms(2) have x1: "1 \<le> ?x" by (meson of_int_1_le_iff order_trans)
  have "(of_int b :: rat) \<le> of_int ?hi" using p assms(2,3) by (simp only: of_int_le_iff) (metis mult_le_cancel_left1 order_trans zero_less_one_class.zero_le_one not_le)
  also have "\<dots> < of_int (2 ^ 53)" using hi53 by (simp only: of_int_less_iff)
  finally have "?x < 2 ^ 53" using x(2) by simp
  from to_double_between [OF x1 this x] eq n show ?thesis
    unfolding n_def by blast
qed

section \<open>The example generator meets the contract\<close>

lemma example_chars_length: "length (example_chars alphabet n s) = n"
  by (simp add: example_chars_def)

lemma example_chars_in: "alphabet \<noteq> [] \<Longrightarrow> set (example_chars alphabet n s) \<subseteq> set alphabet"
  by (auto simp: example_chars_def)

lemma example_faker_ok: "faker_ok example_faker"
proof -
  have letters: "list_all is_letter
      (example_chars ''abcdefghijklmnopqrstuvwxyzABCDEFGHIJKLMNOPQRSTUVWXYZ'' n s)" for n s
    using example_chars_in [of "''abcdefghijklmnopqrstuvwxyzABCDEFGHIJKLMNOPQRSTUVWXYZ''" n s]
    unfolding list_all_iff is_letter_def by blast
  have int: "\<lceil>lo\<rceil> \<le> \<lceil>lo\<rceil> + int (example_value s) mod (\<lfloor>hi\<rfloor> - \<lceil>lo\<rceil> + 1)
      \<and> \<lceil>lo\<rceil> + int (example_value s) mod (\<lfloor>hi\<rfloor> - \<lceil>lo\<rceil> + 1) \<le> \<lfloor>hi\<rfloor>"
    if "\<lceil>lo\<rceil> \<le> \<lfloor>hi\<rfloor>" for lo hi :: rat and s
  proof -
    from that have d: "0 < \<lfloor>hi\<rfloor> - \<lceil>lo\<rceil> + 1" by simp
    from pos_mod_sign [OF d, of "int (example_value s)"]
      pos_mod_bound [OF d, of "int (example_value s)"]
    show ?thesis by linarith
  qed
  show ?thesis
    unfolding faker_ok_def example_faker_def
    using letters int by (simp add: example_chars_length)
qed





section \<open>The fixture generators, unfolded\<close>

lemma prepareBarrelObject_eq:
  "prepareBarrelObject F s
     = (JObj [(''qr'', JStr (fst (string_nanoid F s))),
              (''rfid'', JStr (fst (string_ulid F (snd (string_nanoid F s))))),
              (''nfc'', JStr (fst (string_alpha F 20
                   (snd (string_ulid F (snd (string_nanoid F s)))))))],
        snd (string_alpha F 20 (snd (string_ulid F (snd (string_nanoid F s))))))"
  by (simp add: prepareBarrelObject_def split_def Let_def)

lemma prepareMeasurementObject_eq:
  "prepareMeasurementObject F barrelId s
     = (JObj [(''barrelId'', JStr barrelId),
              (''dirtLevel'', JNum (fst (faker_number_float F 1 95 2 s))),
              (''weight'', JNum (fst (faker_number_float F 100 200 1
                   (snd (faker_number_float F 1 95 2 s)))))],
        snd (faker_number_float F 100 200 1 (snd (faker_number_float F 1 95 2 s))))"
  by (simp add: prepareMeasurementObject_def split_def Let_def)

lemma to_double_example: "to_double (201 / 5) = 2828823515942093 / 70368744177664"
  by code_simp

lemma prepareMeasurementObject_example:
  "prepareMeasurementObject example_faker ''3f2504e0-4f89-41d3-9a0c-0305e82c3301'' 0
     = (JObj [(''barrelId'', JStr ''3f2504e0-4f89-41d3-9a0c-0305e82c3301''),
              (''dirtLevel'', JNum (4998995586381251 / 4503599627370496)),
              (''weight'', JNum (7374644389819187 / 70368744177664))], 2)"
  by code_simp

section \<open>Evaluated strings\<close>

lemma sublist_json_charset: "sublist ''application/json'' ''application/json; charset=utf-8''"
  by code_simp

lemma not_sublist_json_html: "\<not> sublist ''application/json'' ''text/html''"
  by code_simp

section \<open>Claims\<close>

text \<open>
  C1 (as amended). \<^verbatim>\<open>measurementObject.safeParse\<close> succeeds exactly on the objects whose
  \<open>id\<close> is absent or a UUID string, whose \<open>barrelId\<close> is a UUID string and whose \<open>dirtLevel\<close>
  and \<open>weight\<close> are numbers of absolute value at most the greatest single-precision value.
  The sign of \<open>dirtLevel\<close> and \<open>weight\<close> is not checked.
\<close>

theorem measurementObject_ignores_sign:
  "measurementObject v \<longleftrightarrow>
     (\<exists>fs. v = Some (JObj fs)
        \<and> (map_of fs ''id'' = None \<or> (\<exists>s. map_of fs ''id'' = Some (JStr s) \<and> uuid_regex s))
        \<and> (\<exists>b. map_of fs ''barrelId'' = Some (JStr b) \<and> uuid_regex b)
        \<and> (\<exists>x. map_of fs ''dirtLevel'' = Some (JNum x) \<and> \<bar>x\<bar> \<le> FLOAT32_MAX)
        \<and> (\<exists>x. map_of fs ''weight'' = Some (JNum x) \<and> \<bar>x\<bar> \<le> FLOAT32_MAX))"
  unfolding measurementObject_iff [of v] abs_le_iff by (simp add: minus_le_iff conj_commute)

text \<open>The claim as it was stated fails on the payload of the negative dirt level scenario,
  with a UUID for the barrel: the schema accepts it.\<close>

theorem measurementObject_negative_counterexample:
  "measurementObject
     (Some (JObj [(''barrelId'', JStr ''3f2504e0-4f89-41d3-9a0c-0305e82c3301''),
                  (''dirtLevel'', JNum (- 10)),
                  (''weight'', JNum 10)]))"
  by (simp add: measurementObject_def z_object_def z_optional_def z_uuid_def z_float32_def
        FLOAT32_MAX_def uuid_regex_def hex_digit_def)

theorem measurementObject_ignores_sign_witness:
  "measurementObject
     (Some (JObj [(''id'', JStr ''9b2e4c1a-7d3f-4a6b-8c5d-1e2f3a4b5c6d''),
                  (''barrelId'', JStr ''3f2504e0-4f89-41d3-9a0c-0305e82c3301''),
                  (''dirtLevel'', JNum 10),
                  (''weight'', JNum (- 25 / 2))]))"
  using measurementObject_ignores_sign
    [of "Some (JObj [(''id'', JStr ''9b2e4c1a-7d3f-4a6b-8c5d-1e2f3a4b5c6d''),
                  (''barrelId'', JStr ''3f2504e0-4f89-41d3-9a0c-0305e82c3301''),
                  (''dirtLevel'', JNum 10),
                  (''weight'', JNum (- 25 / 2))])"]
  by (simp add: FLOAT32_MAX_def uuid_regex_def hex_digit_def)

text \<open>
  C2. Each response validator returns the parsed body exactly when the content-type header
  contains \<^verbatim>\<open>application/json\<close>, the body parses to a truthy value and that value passes the
  entity schema; in every other case it fails and returns nothing.
\<close>

theorem check_response_and_return_body:
  "(checkBarrelResponseAndReturnBody response = Inr b \<longleftrightarrow>
      content_type_is_json response \<and> json_body response = Some b
      \<and> truthy (Some b) \<and> barrelObject (Some b))
   \<and> ((\<exists>e. checkBarrelResponseAndReturnBody response = Inl e) \<longleftrightarrow>
      \<not> (content_type_is_json response
         \<and> (\<exists>v. json_body response = Some v \<and> truthy (Some v) \<and> barrelObject (Some v))))
   \<and> (checkMeasurementResponseAndReturnBody response = Inr b \<longleftrightarrow>
      content_type_is_json response \<and> json_body response = Some b
      \<and> truthy (Some b) \<and> measurementObject (Some b))
   \<and> ((\<exists>e. checkMeasurementResponseAndReturnBody response = Inl e) \<longleftrightarrow>
      \<not> (content_type_is_json response
         \<and> (\<exists>v. json_body response = Some v \<and> truthy (Some v) \<and> measurementObject (Some v))))"
proof -
  have ct: "(\<exists>s. map_of (headers response) ''content-type'' = Some s
               \<and> sublist ''application/json'' s) \<longleftrightarrow> content_type_is_json response"
    by (simp add: content_type_is_json_def split: option.splits)
  have barrel: "checkBarrelResponseAndReturnBody response = Inr x \<longleftrightarrow>
      content_type_is_json response \<and> json_body response = Some x
      \<and> truthy (Some x) \<and> barrelObject (Some x)" for x
    unfolding checkBarrelResponseAndReturnBody_def and_then_Inr_iff expect_toContain_iff
      expect_toBeTruthy_iff response_json_iff ct
    by auto
  have meas: "checkMeasurementResponseAndReturnBody response = Inr x \<longleftrightarrow>
      content_type_is_json response \<and> json_body response = Some x
      \<and> truthy (Some x) \<and> measurementObject (Some x)" for x
    unfolding checkMeasurementResponseAndReturnBody_def and_then_Inr_iff expect_toContain_iff
      expect_toBeTruthy_iff response_json_iff ct
    by auto
  show ?thesis
    unfolding not_Inr_iff_Inl barrel meas by blast
qed

theorem check_response_and_return_body_witness:
  "checkBarrelResponseAndReturnBody
     \<lparr>status = 201, headers = [(''content-type'', ''application/json; charset=utf-8'')],
      json_body = Some (JObj [(''id'', JStr ''01ARZ3NDEKTSV4RRFFQ69G5FAV''), (''qr'', JStr ''T''),
                              (''rfid'', JStr ''r1''), (''nfc'', JStr ''n1'')])\<rparr>
     = Inr (JObj [(''id'', JStr ''01ARZ3NDEKTSV4RRFFQ69G5FAV''), (''qr'', JStr ''T''),
                  (''rfid'', JStr ''r1''), (''nfc'', JStr ''n1'')])
   \<and> (\<exists>e. checkMeasurementResponseAndReturnBody
        \<lparr>status = 201, headers = [(''content-type'', ''text/html'')],
         json_body = Some (JObj [(''barrelId'', JStr ''3f2504e0-4f89-41d3-9a0c-0305e82c3301''),
                                 (''dirtLevel'', JNum 10), (''weight'', JNum 10)])\<rparr> = Inl e)
   \<and> (\<exists>e. checkBarrelResponseAndReturnBody
        \<lparr>status = 201, headers = [(''content-type'', ''application/json; charset=utf-8'')],
         json_body = Some (JObj [(''qr'', JStr []), (''rfid'', JStr ''r1''),
                                 (''nfc'', JStr ''n1'')])\<rparr> = Inl e)"
  using check_response_and_return_body
     [of "\<lparr>status = 201, headers = [(''content-type'', ''application/json; charset=utf-8'')],
           json_body = Some (JObj [(''id'', JStr ''01ARZ3NDEKTSV4RRFFQ69G5FAV''),
                                   (''qr'', JStr ''T''), (''rfid'', JStr ''r1''),
                                   (''nfc'', JStr ''n1'')])\<rparr>"
         "JObj [(''id'', JStr ''01ARZ3NDEKTSV4RRFFQ69G5FAV''), (''qr'', JStr ''T''),
                (''rfid'', JStr ''r1''), (''nfc'', JStr ''n1'')]"]
    check_response_and_return_body
     [of "\<lparr>status = 201, headers = [(''content-type'', ''text/html'')],
           json_body = Some (JObj [(''barrelId'', JStr ''3f2504e0-4f89-41d3-9a0c-0305e82c3301''),
                                   (''dirtLevel'', JNum 10), (''weight'', JNum 10)])\<rparr>" "JNull"]
    check_response_and_return_body
     [of "\<lparr>status = 201, headers = [(''content-type'', ''application/json; charset=utf-8'')],
           json_body = Some (JObj [(''qr'', JStr []), (''rfid'', JStr ''r1''),
                                   (''nfc'', JStr ''n1'')])\<rparr>" "JNull"]
    sublist_json_charset not_sublist_json_html
  by (simp add: content_type_is_json_def barrelObject_iff)




text \<open>
  C4 (as amended). For every string \<open>barrelId\<close> and every state of Faker,
  \<^verbatim>\<open>prepareMeasurementObject(barrelId)\<close> returns an object whose \<open>barrelId\<close> is the argument,
  whose \<open>dirtLevel\<close> is the double nearest to \<open>n / 100\<close> for the integer \<open>n\<close> Faker draws
  between 100 and 9500, and lies in [1, 95], and whose \<open>weight\<close> is the double nearest to
  \<open>n / 10\<close> for the integer drawn between 1000 and 2000, and lies in [100, 200]. The object
  passes \<^verbatim>\<open>measurementObject\<close> exactly when \<open>barrelId\<close> is UUID-formatted.
\<close>

theorem prepareMeasurementObject_conforms:
  assumes "faker_ok F"
  shows "(measurementObject (Some (fst (prepareMeasurementObject F barrelId s)))
            \<longleftrightarrow> uuid_regex barrelId)
    \<and> (\<exists>n_dirt n_weight.
          fst (prepareMeasurementObject F barrelId s)
            = JObj [(''barrelId'', JStr barrelId),
                    (''dirtLevel'', JNum (to_double (of_int n_dirt / 100))),
                    (''weight'', JNum (to_double (of_int n_weight / 10)))]
          \<and> n_dirt = fst (number_int F 100 9500 s)
          \<and> n_weight = fst (number_int F 1000 2000 (snd (number_int F 100 9500 s)))
          \<and> 100 \<le> n_dirt \<and> n_dirt \<le> 9500
          \<and> 1000 \<le> n_weight \<and> n_weight \<le> 2000
          \<and> 1 \<le> to_double (of_int n_dirt / 100) \<and> to_double (of_int n_dirt / 100) \<le> 95
          \<and> 100 \<le> to_double (of_int n_weight / 10)
          \<and> to_double (of_int n_weight / 10) \<le> 200)"
proof -
  let ?s1 = "snd (number_int F 100 9500 s)"
  from faker_number_float_eq [OF assms, of 1 95 2 s]
  obtain nd where d: "faker_number_float F 1 95 2 s = (to_double (of_int nd / 100), ?s1)"
      "nd = fst (number_int F 100 9500 s)" "100 \<le> nd" "nd \<le> 9500"
      "1 \<le> to_double (of_int nd / 100)" "to_double (of_int nd / 100) \<le> 95"
    by auto
  from faker_number_float_eq [OF assms, of 100 200 1 ?s1]
  obtain nw where w: "faker_number_float F 100 200 1 ?s1
        = (to_double (of_int nw / 10), snd (number_int F 1000 2000 ?s1))"
      "nw = fst (number_int F 1000 2000 ?s1)" "1000 \<le> nw" "nw \<le> 2000"
      "100 \<le> to_double (of_int nw / 10)" "to_double (of_int nw / 10) \<le> 200"
    by auto
  have obj: "fst (prepareMeasurementObject F barrelId s)
      = JObj [(''barrelId'', JStr barrelId),
              (''dirtLevel'', JNum (to_double (of_int nd / 100))),
              (''weight'', JNum (to_double (of_int nw / 10)))]"
    unfolding prepareMeasurementObject_def Let_def d(1) split_conv w(1) by simp
  from d(5,6) w(5,6) have f32: "- FLOAT32_MAX \<le> to_double (of_int nd / 100)"
      "to_double (of_int nd / 100) \<le> FLOAT32_MAX"
      "- FLOAT32_MAX \<le> to_double (of_int nw / 10)"
      "to_double (of_int nw / 10) \<le> FLOAT32_MAX"
    by (simp_all add: FLOAT32_MAX_def)
  have "measurementObject (Some (fst (prepareMeasurementObject F barrelId s)))
          \<longleftrightarrow> uuid_regex barrelId"
    using f32 by (simp add: obj measurementObject_iff)
  with obj d(2-6) w(2-6) show ?thesis
    by blast
qed

text \<open>The claim as it was stated fails for a barrel identifier that is a ULID, the kind of
  identifier the barrel scenarios assign: the generated object does not pass the schema.\<close>

theorem prepareMeasurementObject_counterexample:
  "\<not> measurementObject
       (Some (fst (prepareMeasurementObject example_faker ''01ARZ3NDEKTSV4RRFFQ69G5FAV'' 0)))"
  by (simp add: measurementObject_iff prepareMeasurementObject_def split_def Let_def
        uuid_regex_def)

theorem prepareMeasurementObject_conforms_witness:
  "faker_ok example_faker
   \<and> measurementObject
       (Some (fst (prepareMeasurementObject example_faker
                ''3f2504e0-4f89-41d3-9a0c-0305e82c3301'' 0)))"
proof -
  have u: "uuid_regex ''3f2504e0-4f89-41d3-9a0c-0305e82c3301''"
    by (simp add: uuid_regex_def hex_digit_def)
  from prepareMeasurementObject_conforms
         [OF example_faker_ok, of "''3f2504e0-4f89-41d3-9a0c-0305e82c3301''" 0]
       example_faker_ok u
  show ?thesis by blast
qed

text \<open>
  C5. Each required-field checker passes exactly when the response is an object whose title
  is the validation message, whose \<open>errors\<close> mapping is present, and in which element 0 of
  the value under the checker's key is equal, as a string, to the checker's fixed message.
\<close>

theorem required_field_checkers:
  "(checkQrRequiredErrorResponse response = Inr ()
      \<longleftrightarrow> field_error_envelope ''Qr'' ''The Qr field is required.'' response)
   \<and> (checkRfidRequiredErrorResponse response = Inr ()
      \<longleftrightarrow> field_error_envelope ''Rfid'' ''The Rfid field is required.'' response)
   \<and> (checkNfcRequiredErrorResponse response = Inr ()
      \<longleftrightarrow> field_error_envelope ''Nfc'' ''The Nfc field is required.'' response)
   \<and> (checkBarrelIdRequiredErrorResponse response = Inr ()
      \<longleftrightarrow> field_error_envelope ''BarrelId'' ''The BarrelId field is required.'' response)
   \<and> (checkDirtLevelRequiredErrorResponse response = Inr ()
      \<longleftrightarrow> field_error_envelope ''DirtLevel'' ''The Dirtlevel field is required.'' response)
   \<and> (checkWeightRequiredErrorResponse response = Inr ()
      \<longleftrightarrow> field_error_envelope ''Weight'' ''The Weight field is required.'' response)"
  unfolding checkQrRequiredErrorResponse_def checkRfidRequiredErrorResponse_def
    checkNfcRequiredErrorResponse_def checkBarrelIdRequiredErrorResponse_def
    checkDirtLevelRequiredErrorResponse_def checkWeightRequiredErrorResponse_def
    opt_field_check_iff index0_field_check_iff
  by simp

theorem required_field_checkers_witness:
  "checkQrRequiredErrorResponse
     (JObj [(''title'', JStr ''One or more validation errors occurred.''),
            (''status'', JNum 400),
            (''errors'', JObj [(''Qr'', JArr [JStr ''The Qr field is required.''])])]) = Inr ()
   \<and> checkQrRequiredErrorResponse
     (JObj [(''title'', JStr ''One or more validation errors occurred.''),
            (''status'', JNum 400),
            (''errors'', JObj [(''Qr'', JArr [JStr ''The Qr field is required. Sorry.''])])])
       \<noteq> Inr ()"
  using required_field_checkers
    [of "JObj [(''title'', JStr ''One or more validation errors occurred.''),
            (''status'', JNum 400),
            (''errors'', JObj [(''Qr'', JArr [JStr ''The Qr field is required.''])])]"]
   required_field_checkers
    [of "JObj [(''title'', JStr ''One or more validation errors occurred.''),
            (''status'', JNum 400),
            (''errors'', JObj [(''Qr'', JArr [JStr ''The Qr field is required. Sorry.''])])]"]
  by (simp add: field_error_envelope_def validationErrorMessage_def)

lemma field_error_envelope_array:
  "field_error_envelope key message (JObj fs) \<Longrightarrow> map_of fs ''errors'' = Some (JObj es)
   \<Longrightarrow> map_of es key = Some (JArr ms) \<Longrightarrow> ms \<noteq> [] \<and> hd ms = JStr message"
  by (cases ms) (simp_all add: field_error_envelope_def)

text \<open>
  C6. The negative dirt level scenario posts \<open>dirtLevel = -10\<close> and passes exactly when the
  answer has status 400 and an error envelope whose \<open>errors.DirtLevel[0]\<close> is the string
  \<^verbatim>\<open>DirtLevel must be positive number\<close>; the negative weight scenario posts \<open>weight = -10\<close>
  and passes exactly when the answer has status 400 and an envelope whose
  \<open>errors.Weight[0]\<close> is \<^verbatim>\<open>Weight must be positive number\<close>.
\<close>

theorem negative_number_scenarios:
  "(test_dirt_level_is_negative_number post barrel = Inr () \<longleftrightarrow>
      (\<exists>barrel_id body.
         get_prop (Some barrel) ''id'' = Inr barrel_id
         \<and> status (post ''/measurements''
              (json_data [(''barrelId'', barrel_id), (''dirtLevel'', Some (JNum (- 10))),
                          (''weight'', Some (JNum 10))])) = 400
         \<and> json_body (post ''/measurements''
              (json_data [(''barrelId'', barrel_id), (''dirtLevel'', Some (JNum (- 10))),
                          (''weight'', Some (JNum 10))])) = Some body
         \<and> field_error_envelope ''DirtLevel'' ''DirtLevel must be positive number'' body))
   \<and> (test_weight_is_negative_number post barrel = Inr () \<longleftrightarrow>
      (\<exists>barrel_id body.
         get_prop (Some barrel) ''id'' = Inr barrel_id
         \<and> status (post ''/measurements''
              (json_data [(''barrelId'', barrel_id), (''dirtLevel'', Some (JNum 10)),
                          (''weight'', Some (JNum (- 10)))])) = 400
         \<and> json_body (post ''/measurements''
              (json_data [(''barrelId'', barrel_id), (''dirtLevel'', Some (JNum 10)),
                          (''weight'', Some (JNum (- 10)))])) = Some body
         \<and> field_error_envelope ''Weight'' ''Weight must be positive number'' body))"
proof -
  have dirt: "and_then (checkErrorResponse r) (\<lambda>_.
     and_then (get_prop (Some r) ''errors'') (\<lambda>errors.
     and_then (get_prop errors key) (\<lambda>field.
     and_then (expect_toBeTruthy field) (\<lambda>_.
     and_then (expect_toBeTruthy (opt_index0 field)) (\<lambda>_.
     expect_toBe (opt_index0 field) (Some (JStr (c # cs)))))))) = Inr ()
   \<longleftrightarrow> field_error_envelope key (c # cs) r" for r key c cs
  proof -
    have "and_then (checkErrorResponse r) (\<lambda>_.
       and_then (get_prop (Some r) ''errors'') (\<lambda>errors.
       and_then (get_prop errors key) (\<lambda>field.
       and_then (expect_toBeTruthy field) (\<lambda>_.
       and_then (expect_toBeTruthy (opt_index0 field)) (\<lambda>_.
       expect_toBe (opt_index0 field) (Some (JStr (c # cs)))))))) = Inr ()
     \<longleftrightarrow> and_then (checkErrorResponse r) (\<lambda>_.
       and_then (get_prop (Some r) ''errors'') (\<lambda>errors.
       and_then (get_prop errors key) (\<lambda>field.
       and_then (expect_toBeTruthy field) (\<lambda>_.
       expect_toBe (opt_index0 field) (Some (JStr (c # cs))))))) = Inr ()"
      unfolding and_then_Inr_iff expect_toBeTruthy_iff expect_toBe_iff by auto
    then show ?thesis
      unfolding opt_field_check_iff .
  qed
  show ?thesis
    unfolding test_dirt_level_is_negative_number_def test_weight_is_negative_number_def
      measurementsEndpoint_def Let_def
    by (simp add: and_then_Inr_iff [where f = "\<lambda>x. and_then (expect_toBe (status (post _ _)) _) _"]
          and_then_Inr_iff [where r = "get_prop _ _"]
          and_then_Inr_iff [where r = "expect_toBe (status _) _"]
          and_then_Inr_iff [where r = "response_json _"]
          expect_toBe_iff response_json_iff dirt opt_field_check_iff)
qed

theorem negative_number_scenarios_witness:
  "test_dirt_level_is_negative_number
     (\<lambda>url data.
        if url = ''/measurements''
           \<and> (case data of
                JObj fs \<Rightarrow> (case map_of fs ''dirtLevel'' of Some (JNum x) \<Rightarrow> x < 0 | _ \<Rightarrow> False)
              | _ \<Rightarrow> False)
        then \<lparr>status = 400, headers = [(''content-type'', ''application/problem+json'')],
              json_body = Some (JObj
                [(''title'', JStr ''One or more validation errors occurred.''),
                 (''status'', JNum 400),
                 (''errors'', JObj [(''DirtLevel'', JArr [JStr ''DirtLevel must be positive number''])])])\<rparr>
        else \<lparr>status = 201, headers = [(''content-type'', ''application/json'')],
              json_body = Some data\<rparr>)
     (JObj [(''id'', JStr ''3f2504e0-4f89-41d3-9a0c-0305e82c3301''), (''qr'', JStr ''q''),
            (''rfid'', JStr ''r''), (''nfc'', JStr ''n'')]) = Inr ()"
  using negative_number_scenarios
    [of "\<lambda>url data.
        if url = ''/measurements''
           \<and> (case data of
                JObj fs \<Rightarrow> (case map_of fs ''dirtLevel'' of Some (JNum x) \<Rightarrow> x < 0 | _ \<Rightarrow> False)
              | _ \<Rightarrow> False)
        then \<lparr>status = 400, headers = [(''content-type'', ''application/problem+json'')],
              json_body = Some (JObj
                [(''title'', JStr ''One or more validation errors occurred.''),
                 (''status'', JNum 400),
                 (''errors'', JObj [(''DirtLevel'', JArr [JStr ''DirtLevel must be positive number''])])])\<rparr>
        else \<lparr>status = 201, headers = [(''content-type'', ''application/json'')],
              json_body = Some data\<rparr>"
        "JObj [(''id'', JStr ''3f2504e0-4f89-41d3-9a0c-0305e82c3301''), (''qr'', JStr ''q''),
            (''rfid'', JStr ''r''), (''nfc'', JStr ''n'')]"]
  by (simp add: json_data_def field_error_envelope_def validationErrorMessage_def)

text \<open>
  C7 (as amended). \<^verbatim>\<open>barrelObject\<close> accepts tag strings of every length from 1 upwards, with
  no upper bound, and rejects an empty tag. The scenario \<^verbatim>\<open>Post - Qr is too long\<close> posts a
  \<open>qr\<close> of 10000 characters and passes exactly when the service answers 400 with
  \<open>errors.Qr[0]\<close> equal to \<^verbatim>\<open>Input too long\<close>: the suite asserts a maximum length.
\<close>

theorem barrel_tag_length:
  "((map_of fs ''id'' = None \<or> (\<exists>i. map_of fs ''id'' = Some (JStr i)))
      \<and> map_of fs ''qr'' = Some (JStr q) \<and> map_of fs ''rfid'' = Some (JStr r)
      \<and> map_of fs ''nfc'' = Some (JStr n)
     \<longrightarrow> (barrelObject (Some (JObj fs)) \<longleftrightarrow> 1 \<le> length q \<and> 1 \<le> length r \<and> 1 \<le> length n))
   \<and> (test_post_qr_is_too_long post F s = Inr () \<longleftrightarrow>
        status (post ''/barrels''
          (JObj [(''qr'', JStr (replicate 10000 CHR ''x'')), (''rfid'', JStr (fst (string_ulid F (snd (string_nanoid F s))))),
                 (''nfc'', JStr (fst (string_alpha F 20
                      (snd (string_ulid F (snd (string_nanoid F s)))))))])) = 400
        \<and> (\<exists>body. json_body (post ''/barrels''
              (JObj [(''qr'', JStr (replicate 10000 CHR ''x'')), (''rfid'', JStr (fst (string_ulid F (snd (string_nanoid F s))))),
                     (''nfc'', JStr (fst (string_alpha F 20
                      (snd (string_ulid F (snd (string_nanoid F s)))))))])) = Some body
             \<and> field_error_envelope ''Qr'' ''Input too long'' body))"
proof (intro conjI impI)
  assume "(map_of fs ''id'' = None \<or> (\<exists>i. map_of fs ''id'' = Some (JStr i)))
      \<and> map_of fs ''qr'' = Some (JStr q) \<and> map_of fs ''rfid'' = Some (JStr r)
      \<and> map_of fs ''nfc'' = Some (JStr n)"
  then show "barrelObject (Some (JObj fs)) \<longleftrightarrow> 1 \<le> length q \<and> 1 \<le> length r \<and> 1 \<le> length n"
    by (auto simp: barrelObject_iff Suc_le_eq)
next
  show "test_post_qr_is_too_long post F s = Inr () \<longleftrightarrow>
        status (post ''/barrels''
          (JObj [(''qr'', JStr (replicate 10000 CHR ''x'')), (''rfid'', JStr (fst (string_ulid F (snd (string_nanoid F s))))),
                 (''nfc'', JStr (fst (string_alpha F 20
                      (snd (string_ulid F (snd (string_nanoid F s)))))))])) = 400
        \<and> (\<exists>body. json_body (post ''/barrels''
              (JObj [(''qr'', JStr (replicate 10000 CHR ''x'')), (''rfid'', JStr (fst (string_ulid F (snd (string_nanoid F s))))),
                     (''nfc'', JStr (fst (string_alpha F 20
                      (snd (string_ulid F (snd (string_nanoid F s)))))))])) = Some body
             \<and> field_error_envelope ''Qr'' ''Input too long'' body)"
    unfolding test_post_qr_is_too_long_def barrelsEndpoint_def prepareBarrelObject_eq Let_def
    by (simp add: and_then_Inr_iff [where r = "expect_toBe (status _) _"]
          and_then_Inr_iff [where r = "response_json _"]
          expect_toBe_iff response_json_iff opt_field_check_iff)
qed

text \<open>The claim as it was stated fails on a service that accepts the long \<open>qr\<close> and echoes
  the barrel with status 201: the echoed barrel passes the schema, and the scenario fails.\<close>

theorem qr_too_long_counterexample:
  "barrelObject
     (Some (JObj [(''qr'', JStr (replicate 10000 CHR ''x'')),
                  (''rfid'', JStr ''01ARZ3NDEKTSV4RRFFQ69G5FAV''),
                  (''nfc'', JStr ''qWertyUiopAsdfGhjklZ'')]))
   \<and> test_post_qr_is_too_long
       (\<lambda>url data. \<lparr>status = 201, headers = [(''content-type'', ''application/json'')],
                     json_body = Some data\<rparr>)
       example_faker 0
     = Inl (ExpectFailed ''toBe'')"
  by (simp add: barrelObject_def z_object_def z_optional_def z_min_def z_string_def
        test_post_qr_is_too_long_def and_then_def expect_toBe_def)

theorem barrel_tag_length_witness:
  "barrelObject
     (Some (JObj [(''id'', JStr ''01ARZ3NDEKTSV4RRFFQ69G5FAV''),
                  (''qr'', JStr (replicate 10000 CHR ''x'')),
                  (''rfid'', JStr ''T''),
                  (''nfc'', JStr ''qWertyUiopAsdfGhjklZ'')]))
   \<and> \<not> barrelObject
     (Some (JObj [(''qr'', JStr ''''), (''rfid'', JStr ''T''), (''nfc'', JStr ''T'')]))"
  using barrel_tag_length
     [of "[(''id'', JStr ''01ARZ3NDEKTSV4RRFFQ69G5FAV''),
           (''qr'', JStr (replicate 10000 CHR ''x'')),
           (''rfid'', JStr ''T''),
           (''nfc'', JStr ''qWertyUiopAsdfGhjklZ'')]"
         "replicate 10000 CHR ''x''" "''T''" "''qWertyUiopAsdfGhjklZ''"
         "\<lambda>url data. \<lparr>status = 201, headers = [], json_body = Some data\<rparr>"
         example_faker 0]
    barrel_tag_length
     [of "[(''qr'', JStr ''''), (''rfid'', JStr ''T''), (''nfc'', JStr ''T'')]"
         "''''" "''T''" "''T''"
         "\<lambda>url data. \<lparr>status = 201, headers = [], json_body = Some data\<rparr>"
         example_faker 0]
  by simp

text \<open>
  C9. \<^verbatim>\<open>barrelObject\<close> accepts a barrel whose \<open>id\<close> is any string; \<^verbatim>\<open>measurementObject\<close>
  rejects every value whose \<open>id\<close> is present and not a UUID string, and every value whose
  \<open>barrelId\<close> is not a UUID string; so \<^verbatim>\<open>checkBarrelResponseAndReturnBody\<close> returns the body
  of a JSON response holding a barrel with non-empty tags whatever string its \<open>id\<close> is.
\<close>

theorem identifier_format_differs:
  "(map_of fs ''id'' = Some (JStr i) \<and> map_of fs ''qr'' = Some (JStr q) \<and> q \<noteq> []
      \<and> map_of fs ''rfid'' = Some (JStr r) \<and> r \<noteq> [] \<and> map_of fs ''nfc'' = Some (JStr n) \<and> n \<noteq> []
     \<longrightarrow> barrelObject (Some (JObj fs))
         \<and> (content_type_is_json response \<and> json_body response = Some (JObj fs)
            \<longrightarrow> checkBarrelResponseAndReturnBody response = Inr (JObj fs)))
   \<and> (map_of ms ''id'' = Some v \<and> (\<forall>s. v = JStr s \<longrightarrow> \<not> uuid_regex s)
     \<longrightarrow> \<not> measurementObject (Some (JObj ms)))
   \<and> ((\<forall>s. map_of ms ''barrelId'' = Some (JStr s) \<longrightarrow> \<not> uuid_regex s)
     \<longrightarrow> \<not> measurementObject (Some (JObj ms)))"
proof (intro conjI impI)
  assume a: "map_of fs ''id'' = Some (JStr i) \<and> map_of fs ''qr'' = Some (JStr q) \<and> q \<noteq> []
      \<and> map_of fs ''rfid'' = Some (JStr r) \<and> r \<noteq> [] \<and> map_of fs ''nfc'' = Some (JStr n) \<and> n \<noteq> []"
  then show b: "barrelObject (Some (JObj fs))"
    by (simp add: barrelObject_iff)
  assume "content_type_is_json response \<and> json_body response = Some (JObj fs)"
  with b show "checkBarrelResponseAndReturnBody response = Inr (JObj fs)"
    by (auto simp: checkBarrelResponseAndReturnBody_def content_type_is_json_def and_then_def
          expect_toContain_def response_json_def expect_toBeTruthy_def split: option.splits)
next
  assume "map_of ms ''id'' = Some v \<and> (\<forall>s. v = JStr s \<longrightarrow> \<not> uuid_regex s)"
  then show "\<not> measurementObject (Some (JObj ms))"
    by (auto simp: measurementObject_iff)
next
  assume "\<forall>s. map_of ms ''barrelId'' = Some (JStr s) \<longrightarrow> \<not> uuid_regex s"
  then show "\<not> measurementObject (Some (JObj ms))"
    by (auto simp: measurementObject_iff)
qed

theorem identifier_format_differs_witness:
  "barrelObject (Some (JObj [(''id'', JStr ''not-guid''), (''qr'', JStr ''T''),
                             (''rfid'', JStr ''T''), (''nfc'', JStr ''T'')]))
   \<and> checkBarrelResponseAndReturnBody
       \<lparr>status = 200, headers = [(''content-type'', ''application/json; charset=utf-8'')],
        json_body = Some (JObj [(''id'', JStr ''not-guid''), (''qr'', JStr ''T''),
                                (''rfid'', JStr ''T''), (''nfc'', JStr ''T'')])\<rparr>
     = Inr (JObj [(''id'', JStr ''not-guid''), (''qr'', JStr ''T''),
                  (''rfid'', JStr ''T''), (''nfc'', JStr ''T'')])
   \<and> \<not> measurementObject
       (Some (JObj [(''id'', JStr ''not-guid''),
                    (''barrelId'', JStr ''3f2504e0-4f89-41d3-9a0c-0305e82c3301''),
                    (''dirtLevel'', JNum 10), (''weight'', JNum 10)]))
   \<and> \<not> measurementObject
       (Some (JObj [(''barrelId'', JStr ''01ARZ3NDEKTSV4RRFFQ69G5FAV''),
                    (''dirtLevel'', JNum 10), (''weight'', JNum 10)]))"
  using identifier_format_differs
     [of "[(''id'', JStr ''not-guid''), (''qr'', JStr ''T''),
           (''rfid'', JStr ''T''), (''nfc'', JStr ''T'')]"
         "''not-guid''" "''T''" "''T''" "''T''"
         "\<lparr>status = 200, headers = [(''content-type'', ''application/json; charset=utf-8'')],
           json_body = Some (JObj [(''id'', JStr ''not-guid''), (''qr'', JStr ''T''),
                                   (''rfid'', JStr ''T''), (''nfc'', JStr ''T'')])\<rparr>"
         "[(''id'', JStr ''not-guid''),
           (''barrelId'', JStr ''3f2504e0-4f89-41d3-9a0c-0305e82c3301''),
           (''dirtLevel'', JNum 10), (''weight'', JNum 10)]"
         "JStr ''not-guid''"]
    identifier_format_differs
     [of "[]" "''''" "''''" "''''" "''''" "\<lparr>status = 200, headers = [], json_body = None\<rparr>"
         "[(''barrelId'', JStr ''01ARZ3NDEKTSV4RRFFQ69G5FAV''),
           (''dirtLevel'', JNum 10), (''weight'', JNum 10)]"
         "JNull"]
    sublist_json_charset
  by (simp add: content_type_is_json_def uuid_regex_def)

text \<open>
  C10. Neither generator sets \<open>id\<close>: the object returned by \<^verbatim>\<open>prepareBarrelObject\<close> has the
  keys \<open>qr\<close>, \<open>rfid\<close>, \<open>nfc\<close> and the one returned by \<^verbatim>\<open>prepareMeasurementObject\<close> has the
  keys \<open>barrelId\<close>, \<open>dirtLevel\<close>, \<open>weight\<close>, whatever Faker returns, in whatever state, and whatever the argument.
\<close>

theorem generators_set_no_id:
  "(\<exists>fs. fst (prepareBarrelObject F s) = JObj fs \<and> map fst fs = [''qr'', ''rfid'', ''nfc'']
        \<and> map_of fs ''id'' = None)
   \<and> (\<exists>fs. fst (prepareMeasurementObject F barrelId s) = JObj fs
        \<and> map fst fs = [''barrelId'', ''dirtLevel'', ''weight'']
        \<and> map_of fs ''id'' = None)
   \<and> get_prop (Some (fst (prepareBarrelObject F s))) ''id'' = Inr None
   \<and> get_prop (Some (fst (prepareMeasurementObject F barrelId s))) ''id'' = Inr None"
  by (simp add: prepareBarrelObject_eq prepareMeasurementObject_eq)

end
